theory Spec2Isabelle
  imports Complex_Main
begin

section \<open>Modelling conventions\<close>

text \<open>
  The development embeds the class \<open>FIFOQueue\<close> (the lot ledger of the capital-gains
  engine) as pure functions over an explicit ledger state.

  \<^item> A JavaScript number is a rational (\<open>rat\<close>): arithmetic is exact, and the values
    \<open>NaN\<close> and \<open>Infinity\<close> are not inputs. On such numbers \<open>Number(x)\<close> and
    \<open>parseFloat(x)\<close> are the identity and \<open>x || y\<close> is \<open>y\<close> exactly when \<open>x = 0\<close>.
  \<^item> A \<open>Date\<close> is a valid calendar day, represented by its day number (days since
    Thursday 1 January 1970, in local time); the time of day and the wall clock
    (\<open>timestamp\<close>, \<open>exportDate\<close>) are not modelled.
  \<^item> An optional argument or field (\<open>undefined\<close>, \<open>null\<close>, \<open>''\<close>) is \<open>None\<close>.
  \<^item> A method that writes to \<open>this\<close> takes the ledger and returns the ledger it leaves
    behind, next to its outcome: \<open>Inl\<close> of the thrown \<open>Error\<close>, or \<open>Inr\<close> of the returned
    value. Console output is dropped.
\<close>

type_synonym Date = int

subsection \<open>Built-in operations of the host language\<close>

definition or_else :: "rat \<Rightarrow> rat \<Rightarrow> rat" where
  \<comment> \<open>\<open>a || b\<close> on numbers: \<open>0\<close> is the only falsy finite number\<close>
  "or_else a b = (if a = 0 then b else a)"

definition toUpperCase_char :: "char \<Rightarrow> char" where
  \<comment> \<open>a lower-case ASCII letter (codes 97 to 122) loses bit 5\<close>
  "toUpperCase_char c =
     (let n = (of_char c :: nat)
      in if 97 \<le> n \<and> n \<le> 122
         then (case c of Char b0 b1 b2 b3 b4 b5 b6 b7 \<Rightarrow> Char b0 b1 b2 b3 b4 False b6 b7)
         else c)"

definition toUpperCase :: "string \<Rightarrow> string" where
  \<comment> \<open>\<open>String.prototype.toUpperCase\<close> on ASCII text\<close>
  "toUpperCase s = map toUpperCase_char s"

definition getDay :: "Date \<Rightarrow> int" where
  \<comment> \<open>\<open>Date.prototype.getDay\<close>: 0 is Sunday, 6 is Saturday; day number 0 is a Thursday\<close>
  "getDay d = (d + 4) mod 7"

definition civil :: "Date \<Rightarrow> int \<times> int" where
  \<comment> \<open>year and zero-based month of a day number in the proleptic Gregorian calendar\<close>
  "civil d =
     (let z = d + 719468;
          era = z div 146097;
          doe = z - era * 146097;
          yoe = (doe - doe div 1460 + doe div 36524 - doe div 146096) div 365;
          doy = doe - (365 * yoe + yoe div 4 - yoe div 100);
          mp = (5 * doy + 2) div 153;
          m = (if mp < 10 then mp + 3 else mp - 9);
          y = yoe + era * 400 + (if m \<le> 2 then 1 else 0)
      in (y, m - 1))"

definition getFullYear :: "Date \<Rightarrow> int" where
  "getFullYear d = fst (civil d)"

definition getMonth :: "Date \<Rightarrow> int" where
  "getMonth d = snd (civil d)"

section \<open>Data model\<close>

record Transaction =
  tx_id :: nat
  tx_type :: string
  tx_symbol :: string
  tx_quantity :: rat
  tx_price :: rat
  tx_adjustedPrice :: rat
  tx_feePercent :: rat
  tx_tradeDate :: Date
  tx_settlementDate :: Date
  tx_totalValue :: rat
  tx_adjustedTotalValue :: rat

record Lot =
  lot_quantity :: rat
  lot_price :: rat
  lot_cost :: rat
  lot_costPerShare :: rat
  lot_purchasePrice :: rat
  lot_grossPrice :: rat
  lot_feePercent :: rat
  lot_purchaseDate :: Date
  lot_remainingQuantity :: rat
  lot_value :: rat
  lot_tax :: rat
  lot_originalTransaction :: Transaction

record HoldingPeriod =
  hp_days :: int
  hp_months :: int
  hp_years :: int
  hp_isLongTerm :: bool

record LotUsage =
  lu_purchaseDate :: Date
  lu_quantity :: rat
  lu_costPerShare :: rat
  lu_costBasis :: rat
  lu_holdingPeriod :: HoldingPeriod

record SaleResult =
  sr_symbol :: string
  sr_quantitySold :: rat
  sr_sellPrice :: rat
  sr_grossSellPrice :: rat
  sr_feePercent :: rat
  sr_saleProceeds :: rat
  sr_totalCostBasis :: rat
  sr_capitalGain :: rat
  sr_lotsUsed :: "LotUsage list"
  sr_saleDate :: Date
  sr_isSimulation :: bool

text \<open>
  The ledger: \<open>holdings\<close> maps a symbol to its lots in insertion order, \<open>transactions\<close>
  and \<open>realizedGains\<close> are the two audit trails. The field \<open>isSimulation\<close> of a sale is
  \<open>True\<close> only on the result of \<open>calculateSale\<close> (the source leaves it out elsewhere).
\<close>

record FIFOQueue =
  holdings :: "string \<rightharpoonup> Lot list"
  transactions :: "Transaction list"
  realizedGains :: "SaleResult list"

definition constructor :: FIFOQueue where
  "constructor = \<lparr>holdings = Map.empty, transactions = [], realizedGains = []\<rparr>"

text \<open>
  The two \<open>throw\<close> statements of \<open>_processSell\<close> and the two of \<open>calculateSale\<close>, with the
  values their messages carry.
\<close>

datatype error =
    CannotSellNoHoldings string
  | CannotSellOnlyAvailable rat string rat
  | NoHoldingsFound string
  | InsufficientShares rat rat

datatype result = TransactionRecord Transaction | SaleRecord SaleResult

section \<open>Settlement date\<close>

text \<open>
  \<open>calculateSettlementDate\<close>: the loop \<open>while (daysAdded < 2)\<close> advances the date by one
  day per iteration and counts the days that are neither Sunday (0) nor Saturday (6).
\<close>

function settlement_loop :: "Date \<Rightarrow> nat \<Rightarrow> Date" where
  "settlement_loop date daysAdded =
     (if daysAdded < 2 then
        (let date' = date + 1;
             dayOfWeek = getDay date'
         in if dayOfWeek \<noteq> 0 \<and> dayOfWeek \<noteq> 6
            then settlement_loop date' (daysAdded + 1)
            else settlement_loop date' daysAdded)
      else date)"
  by pat_completeness auto
termination
  by (relation "measure (\<lambda>(d, n). 3 * (2 - n) +
        (if getDay d = 5 then 2 else if getDay d = 6 then 1 else 0))")
     (auto simp: getDay_def, presburger+)

declare settlement_loop.simps [simp del]

definition calculateSettlementDate :: "Date \<Rightarrow> Date" where
  "calculateSettlementDate tradeDate = settlement_loop tradeDate 0"

definition isBusinessDay :: "Date \<Rightarrow> bool" where
  "isBusinessDay d = (getDay d \<noteq> 0 \<and> getDay d \<noteq> 6)"

section \<open>Fees\<close>

definition normalizeFeePercent :: "rat option \<Rightarrow> rat" where
  "normalizeFeePercent feePercent =
     (case feePercent of
        None \<Rightarrow> 1 / 2
      | Some n \<Rightarrow> if n < 0 then 1 / 2 else n)"

definition getAdjustedPrice :: "string \<Rightarrow> rat \<Rightarrow> rat option \<Rightarrow> rat" where
  "getAdjustedPrice type price feePercent =
     (let pct = normalizeFeePercent feePercent / 100;
          p = or_else price 0
      in if type = ''BUY'' then p * (1 + pct)
         else if type = ''SELL'' then p * (1 - pct)
         else p)"

section \<open>Holding period\<close>

definition getHoldingPeriod :: "Date \<Rightarrow> Date \<Rightarrow> HoldingPeriod" where
  "getHoldingPeriod purchase sell =
     (let diffDays = sell - purchase;
          years = getFullYear sell - getFullYear purchase;
          months = getMonth sell - getMonth purchase;
          years' = (if months < 0 then years - 1 else years);
          months' = (if months < 0 then months + 12 else months)
      in \<lparr>hp_days = diffDays,
          hp_months = months' + years' * 12,
          hp_years = years',
          hp_isLongTerm = (diffDays \<ge> 365)\<rparr>)"

section \<open>BUY\<close>

definition newLot :: "Transaction \<Rightarrow> Lot" where
  \<comment> \<open>the object \<open>lot\<close> that \<open>_processBuy\<close> builds from a transaction\<close>
  "newLot transaction =
     (let quantity = or_else (tx_quantity transaction) 0;
          price = or_else (tx_adjustedPrice transaction) 0;
          settlementDate = tx_settlementDate transaction
      in \<lparr>lot_quantity = quantity,
          lot_price = price,
          lot_cost = price,
          lot_costPerShare = price,
          lot_purchasePrice = price,
          lot_grossPrice = or_else (tx_price transaction) price,
          lot_feePercent = or_else (tx_feePercent transaction) 0,
          lot_purchaseDate = settlementDate,
          lot_remainingQuantity = quantity,
          lot_value = quantity * price,
          lot_tax = 0,
          lot_originalTransaction = transaction\<rparr>)"

definition processBuy :: "FIFOQueue \<Rightarrow> Transaction \<Rightarrow> FIFOQueue" where
  "processBuy q transaction =
     (let symbol = tx_symbol transaction;
          quantity = or_else (tx_quantity transaction) 0;
          price = or_else (tx_adjustedPrice transaction) 0
      in if symbol = [] \<or> quantity \<le> 0 \<or> price \<le> 0 then q
         else
           (let lots = (case holdings q symbol of None \<Rightarrow> [] | Some ls \<Rightarrow> ls)
            in q\<lparr>holdings := (holdings q)(symbol \<mapsto> lots @ [newLot transaction])\<rparr>))"

section \<open>SELL\<close>

definition totalAvailable :: "Lot list \<Rightarrow> rat" where
  \<comment> \<open>\<open>lots.reduce((sum, lot) => sum + lot.remainingQuantity, 0)\<close>\<close>
  "totalAvailable lots = foldl (\<lambda>sum lot. sum + lot_remainingQuantity lot) 0 lots"

definition lotUsage :: "Date \<Rightarrow> Lot \<Rightarrow> rat \<Rightarrow> LotUsage" where
  \<comment> \<open>the record pushed on \<open>lotsUsed\<close> for \<open>sharesToTake\<close> shares of a lot\<close>
  "lotUsage settlementDate lot sharesToTake =
     \<lparr>lu_purchaseDate = lot_purchaseDate lot,
      lu_quantity = sharesToTake,
      lu_costPerShare = lot_price lot,
      lu_costBasis = sharesToTake * lot_price lot,
      lu_holdingPeriod = getHoldingPeriod (lot_purchaseDate lot) settlementDate\<rparr>"

text \<open>
  The consumption loop of \<open>_processSell\<close>, from index \<open>i\<close> on: it returns the lots with
  their remaining quantities updated, \<open>lotsUsed\<close> and \<open>totalCostBasis\<close>.
\<close>

fun sell_loop :: "Date \<Rightarrow> Lot list \<Rightarrow> rat \<Rightarrow> LotUsage list \<Rightarrow> rat
    \<Rightarrow> Lot list \<times> LotUsage list \<times> rat" where
  "sell_loop settlementDate [] remainingToSell lotsUsed totalCostBasis =
     ([], lotsUsed, totalCostBasis)"
| "sell_loop settlementDate (lot # lots) remainingToSell lotsUsed totalCostBasis =
     (if remainingToSell > 0 then
        (let sharesToTake = min (lot_remainingQuantity lot) remainingToSell
         in if sharesToTake > 0 then
              (let costBasis = sharesToTake * lot_price lot
               in case sell_loop settlementDate lots (remainingToSell - sharesToTake)
                         (lotsUsed @ [lotUsage settlementDate lot sharesToTake])
                         (totalCostBasis + costBasis) of
                    (lots', r) \<Rightarrow>
                      (lot\<lparr>lot_remainingQuantity := lot_remainingQuantity lot - sharesToTake\<rparr>
                         # lots', r))
            else
              (case sell_loop settlementDate lots remainingToSell lotsUsed totalCostBasis of
                 (lots', r) \<Rightarrow> (lot # lots', r)))
      else (lot # lots, lotsUsed, totalCostBasis))"

definition processSell :: "FIFOQueue \<Rightarrow> Transaction \<Rightarrow> (error + SaleResult) \<times> FIFOQueue" where
  "processSell q transaction =
     (let symbol = tx_symbol transaction;
          quantity = tx_quantity transaction;
          settlementDate = tx_settlementDate transaction;
          grossPrice = or_else (tx_price transaction) 0;
          price = or_else (tx_adjustedPrice transaction) 0
      in case holdings q symbol of
           None \<Rightarrow> (Inl (CannotSellNoHoldings symbol), q)
         | Some lots \<Rightarrow>
             if length lots = 0 then (Inl (CannotSellNoHoldings symbol), q)
             else if totalAvailable lots < quantity
             then (Inl (CannotSellOnlyAvailable quantity symbol (totalAvailable lots)), q)
             else
               (case sell_loop settlementDate lots quantity [] 0 of
                  (lots', lotsUsed, totalCostBasis) \<Rightarrow>
                    (let saleProceeds = quantity * price;
                         capitalGain = saleProceeds - totalCostBasis;
                         saleResult =
                           \<lparr>sr_symbol = symbol,
                            sr_quantitySold = quantity,
                            sr_sellPrice = price,
                            sr_grossSellPrice = grossPrice,
                            sr_feePercent = or_else (tx_feePercent transaction) 0,
                            sr_saleProceeds = saleProceeds,
                            sr_totalCostBasis = totalCostBasis,
                            sr_capitalGain = capitalGain,
                            sr_lotsUsed = lotsUsed,
                            sr_saleDate = settlementDate,
                            sr_isSimulation = False\<rparr>
                     in (Inr saleResult,
                         q\<lparr>holdings := (holdings q)(symbol \<mapsto>
                               filter (\<lambda>lot. lot_remainingQuantity lot > 0) lots'),
                           realizedGains := realizedGains q @ [saleResult]\<rparr>))))"

section \<open>addTransaction\<close>

definition newTransaction ::
  "FIFOQueue \<Rightarrow> string \<Rightarrow> string \<Rightarrow> rat \<Rightarrow> rat \<Rightarrow> Date \<Rightarrow> rat option \<Rightarrow> Transaction" where
  \<comment> \<open>the object \<open>transaction\<close> that \<open>addTransaction\<close> builds from its arguments\<close>
  "newTransaction q type symbol quantity price date feePercent =
     (let tradeDate = date;
          settlementDate = calculateSettlementDate tradeDate;
          txType = toUpperCase type;
          appliedFeePercent = normalizeFeePercent feePercent;
          adjustedPrice = getAdjustedPrice txType price (Some appliedFeePercent)
      in \<lparr>tx_id = length (transactions q) + 1,
          tx_type = txType,
          tx_symbol = toUpperCase symbol,
          tx_quantity = quantity,
          tx_price = price,
          tx_adjustedPrice = adjustedPrice,
          tx_feePercent = appliedFeePercent,
          tx_tradeDate = tradeDate,
          tx_settlementDate = settlementDate,
          tx_totalValue = quantity * price,
          tx_adjustedTotalValue = quantity * adjustedPrice\<rparr>)"

definition addTransaction ::
  "FIFOQueue \<Rightarrow> string \<Rightarrow> string \<Rightarrow> rat \<Rightarrow> rat \<Rightarrow> Date \<Rightarrow> rat option
     \<Rightarrow> (error + result) \<times> FIFOQueue" where
  "addTransaction q type symbol quantity price date feePercent =
     (let transaction = newTransaction q type symbol quantity price date feePercent;
          txType = tx_type transaction
      in if txType = ''BUY'' then
           (let q' = processBuy q transaction
            in (Inr (TransactionRecord transaction),
                q'\<lparr>transactions := transactions q' @ [transaction]\<rparr>))
         else if txType = ''SELL'' then
           (case processSell q transaction of
              (Inl e, q') \<Rightarrow> (Inl e, q')
            | (Inr saleResult, q') \<Rightarrow> (Inr (SaleRecord saleResult), q'))
         else (Inr (TransactionRecord transaction),
               q\<lparr>transactions := transactions q @ [transaction]\<rparr>))"

section \<open>calculateSale\<close>

text \<open>The loop of \<open>calculateSale\<close>: the same consumption, with no lot written.\<close>

fun simulate_loop :: "Date \<Rightarrow> Lot list \<Rightarrow> rat \<Rightarrow> LotUsage list \<Rightarrow> rat
    \<Rightarrow> LotUsage list \<times> rat" where
  "simulate_loop settlementDate [] remainingToSell lotsUsed totalCostBasis =
     (lotsUsed, totalCostBasis)"
| "simulate_loop settlementDate (lot # lots) remainingToSell lotsUsed totalCostBasis =
     (if remainingToSell > 0 then
        (let sharesToTake = min (lot_remainingQuantity lot) remainingToSell
         in if sharesToTake > 0 then
              (let costBasis = sharesToTake * lot_price lot
               in simulate_loop settlementDate lots (remainingToSell - sharesToTake)
                    (lotsUsed @ [lotUsage settlementDate lot sharesToTake])
                    (totalCostBasis + costBasis))
            else simulate_loop settlementDate lots remainingToSell lotsUsed totalCostBasis)
      else (lotsUsed, totalCostBasis))"

definition calculateSale ::
  "FIFOQueue \<Rightarrow> string \<Rightarrow> rat \<Rightarrow> rat \<Rightarrow> Date \<Rightarrow> rat option
     \<Rightarrow> (error + SaleResult) \<times> FIFOQueue" where
  "calculateSale q symbol0 quantity sellPrice sellDate feePercent =
     (let symbol = toUpperCase symbol0;
          settlementDate = calculateSettlementDate sellDate;
          appliedFeePercent = normalizeFeePercent feePercent;
          adjustedSellPrice = getAdjustedPrice ''SELL'' sellPrice (Some appliedFeePercent)
      in case holdings q symbol of
           None \<Rightarrow> (Inl (NoHoldingsFound symbol), q)
         | Some lots \<Rightarrow>
             if length lots = 0 then (Inl (NoHoldingsFound symbol), q)
             else if totalAvailable lots < quantity
             then (Inl (InsufficientShares quantity (totalAvailable lots)), q)
             else
               (case simulate_loop settlementDate lots quantity [] 0 of
                  (lotsUsed, totalCostBasis) \<Rightarrow>
                    (let saleProceeds = quantity * adjustedSellPrice;
                         capitalGain = saleProceeds - totalCostBasis
                     in (Inr \<lparr>sr_symbol = symbol,
                              sr_quantitySold = quantity,
                              sr_sellPrice = adjustedSellPrice,
                              sr_grossSellPrice = sellPrice,
                              sr_feePercent = appliedFeePercent,
                              sr_saleProceeds = saleProceeds,
                              sr_totalCostBasis = totalCostBasis,
                              sr_capitalGain = capitalGain,
                              sr_lotsUsed = lotsUsed,
                              sr_saleDate = settlementDate,
                              sr_isSimulation = True\<rparr>, q))))"

section \<open>Queries\<close>

record HoldingLot =
  hl_quantity :: rat
  hl_remainingQuantity :: rat
  hl_price :: rat
  hl_cost :: rat
  hl_costPerShare :: rat
  hl_purchasePrice :: rat
  hl_purchaseDate :: Date
  hl_value :: rat
  hl_tax :: rat

record HoldingSummary =
  hs_totalQuantity :: rat
  hs_averageCost :: rat
  hs_totalCostBasis :: rat
  hs_lots :: "HoldingLot list"

definition holdingLot :: "Lot \<Rightarrow> HoldingLot" where
  "holdingLot lot =
     (let qty = or_else (lot_remainingQuantity lot) 0;
          prc = or_else (lot_price lot) 0;
          val = qty * prc
      in \<lparr>hl_quantity = qty,
          hl_remainingQuantity = qty,
          hl_price = prc,
          hl_cost = prc,
          hl_costPerShare = prc,
          hl_purchasePrice = prc,
          hl_purchaseDate = lot_purchaseDate lot,
          hl_value = val,
          hl_tax = 0\<rparr>)"

definition getHoldings :: "FIFOQueue \<Rightarrow> (string \<rightharpoonup> HoldingSummary)" where
  "getHoldings q = (\<lambda>symbol.
     case holdings q symbol of
       None \<Rightarrow> None
     | Some lots \<Rightarrow>
         (let validLots = filter (\<lambda>lot. \<not> lot_remainingQuantity lot \<le> 0) lots;
              totalQuantity =
                foldl (\<lambda>sum lot. sum + or_else (lot_remainingQuantity lot) 0) 0 validLots
          in if totalQuantity > 0 then
               (let totalValue =
                      foldl (\<lambda>sum lot. sum + or_else (lot_remainingQuantity lot) 0
                                                * or_else (lot_price lot) 0) 0 validLots;
                    avgCost = (if totalQuantity > 0 then totalValue / totalQuantity else 0)
                in Some \<lparr>hs_totalQuantity = totalQuantity,
                         hs_averageCost = avgCost,
                         hs_totalCostBasis = totalValue,
                         hs_lots = map holdingLot validLots\<rparr>)
             else None))"

definition getRealizedGains :: "FIFOQueue \<Rightarrow> SaleResult list" where
  "getRealizedGains q = realizedGains q"

definition getTransactions :: "FIFOQueue \<Rightarrow> Transaction list" where
  "getTransactions q = transactions q"

section \<open>Export and import\<close>

text \<open>
  A snapshot is what \<open>importData\<close> reads: the three parts of the ledger, where each part
  and each field that \<open>importData\<close> tests against \<open>undefined\<close>, \<open>null\<close> or \<open>''\<close> may be
  missing. \<open>exportData\<close> hands out the ledger's own parts, so nothing is missing there.
\<close>

record StoredLot =
  sl_quantity :: rat
  sl_price :: rat
  sl_cost :: rat
  sl_costPerShare :: rat
  sl_purchasePrice :: rat
  sl_grossPrice :: "rat option"
  sl_feePercent :: "rat option"
  sl_purchaseDate :: Date
  sl_remainingQuantity :: rat
  sl_value :: rat
  sl_tax :: rat
  sl_originalTransaction :: Transaction

record StoredTransaction =
  st_id :: nat
  st_type :: string
  st_symbol :: string
  st_quantity :: rat
  st_price :: rat
  st_adjustedPrice :: "rat option"
  st_feePercent :: "rat option"
  st_tradeDate :: Date
  st_settlementDate :: Date
  st_totalValue :: rat
  st_adjustedTotalValue :: "rat option"

record StoredSale =
  ss_symbol :: string
  ss_quantitySold :: rat
  ss_sellPrice :: rat
  ss_grossSellPrice :: "rat option"
  ss_feePercent :: "rat option"
  ss_saleProceeds :: rat
  ss_totalCostBasis :: rat
  ss_capitalGain :: rat
  ss_lotsUsed :: "LotUsage list"
  ss_saleDate :: Date
  ss_isSimulation :: bool

record Snapshot =
  snap_holdings :: "(string \<rightharpoonup> StoredLot list) option"
  snap_transactions :: "StoredTransaction list option"
  snap_realizedGains :: "StoredSale list option"

definition storeLot :: "Lot \<Rightarrow> StoredLot" where
  "storeLot lot =
     \<lparr>sl_quantity = lot_quantity lot,
      sl_price = lot_price lot,
      sl_cost = lot_cost lot,
      sl_costPerShare = lot_costPerShare lot,
      sl_purchasePrice = lot_purchasePrice lot,
      sl_grossPrice = Some (lot_grossPrice lot),
      sl_feePercent = Some (lot_feePercent lot),
      sl_purchaseDate = lot_purchaseDate lot,
      sl_remainingQuantity = lot_remainingQuantity lot,
      sl_value = lot_value lot,
      sl_tax = lot_tax lot,
      sl_originalTransaction = lot_originalTransaction lot\<rparr>"

definition storeTransaction :: "Transaction \<Rightarrow> StoredTransaction" where
  "storeTransaction t =
     \<lparr>st_id = tx_id t,
      st_type = tx_type t,
      st_symbol = tx_symbol t,
      st_quantity = tx_quantity t,
      st_price = tx_price t,
      st_adjustedPrice = Some (tx_adjustedPrice t),
      st_feePercent = Some (tx_feePercent t),
      st_tradeDate = tx_tradeDate t,
      st_settlementDate = tx_settlementDate t,
      st_totalValue = tx_totalValue t,
      st_adjustedTotalValue = Some (tx_adjustedTotalValue t)\<rparr>"

definition storeSale :: "SaleResult \<Rightarrow> StoredSale" where
  "storeSale g =
     \<lparr>ss_symbol = sr_symbol g,
      ss_quantitySold = sr_quantitySold g,
      ss_sellPrice = sr_sellPrice g,
      ss_grossSellPrice = Some (sr_grossSellPrice g),
      ss_feePercent = Some (sr_feePercent g),
      ss_saleProceeds = sr_saleProceeds g,
      ss_totalCostBasis = sr_totalCostBasis g,
      ss_capitalGain = sr_capitalGain g,
      ss_lotsUsed = sr_lotsUsed g,
      ss_saleDate = sr_saleDate g,
      ss_isSimulation = sr_isSimulation g\<rparr>"

definition exportData :: "FIFOQueue \<Rightarrow> Snapshot" where
  "exportData q =
     \<lparr>snap_holdings = Some (\<lambda>symbol. map_option (map storeLot) (holdings q symbol)),
      snap_transactions = Some (map storeTransaction (transactions q)),
      snap_realizedGains = Some (map storeSale (realizedGains q))\<rparr>"

definition importLot :: "StoredLot \<Rightarrow> Lot" where
  "importLot lot =
     (let grossPrice = (case sl_grossPrice lot of None \<Rightarrow> or_else (sl_price lot) 0 | Some g \<Rightarrow> g);
          feePercent = (case sl_feePercent lot of None \<Rightarrow> 1 / 2 | Some f \<Rightarrow> f);
          pct = or_else feePercent 0 / 100;
          migrate = (pct \<ge> 0 \<and> sl_price lot = grossPrice);
          adjusted = or_else grossPrice 0 * (1 + pct)
      in \<lparr>lot_quantity = sl_quantity lot,
          lot_price = (if migrate then adjusted else sl_price lot),
          lot_cost = (if migrate then adjusted else sl_cost lot),
          lot_costPerShare = (if migrate then adjusted else sl_costPerShare lot),
          lot_purchasePrice = (if migrate then adjusted else sl_purchasePrice lot),
          lot_grossPrice = grossPrice,
          lot_feePercent = feePercent,
          lot_purchaseDate = sl_purchaseDate lot,
          lot_remainingQuantity = sl_remainingQuantity lot,
          lot_value = sl_value lot,
          lot_tax = sl_tax lot,
          lot_originalTransaction = sl_originalTransaction lot\<rparr>)"

definition importTransaction :: "StoredTransaction \<Rightarrow> Transaction" where
  "importTransaction t =
     (let type = toUpperCase (st_type t);
          feePercent0 = (case st_feePercent t of None \<Rightarrow> 1 / 2 | Some f \<Rightarrow> f);
          feePercent = (if feePercent0 < 0 then 1 / 2 else feePercent0);
          adjustedPrice =
            (case st_adjustedPrice t of
               Some a \<Rightarrow> a
             | None \<Rightarrow>
                 (let pct = feePercent / 100;
                      price = or_else (st_price t) 0
                  in if type = ''BUY'' then price * (1 + pct)
                     else if type = ''SELL'' then price * (1 - pct)
                     else price));
          adjustedTotalValue =
            (case st_adjustedTotalValue t of
               Some v \<Rightarrow> v
             | None \<Rightarrow> or_else (st_quantity t) 0 * or_else adjustedPrice 0)
      in \<lparr>tx_id = st_id t,
          tx_type = st_type t,
          tx_symbol = st_symbol t,
          tx_quantity = st_quantity t,
          tx_price = st_price t,
          tx_adjustedPrice = adjustedPrice,
          tx_feePercent = feePercent,
          tx_tradeDate = st_tradeDate t,
          tx_settlementDate = st_settlementDate t,
          tx_totalValue = st_totalValue t,
          tx_adjustedTotalValue = adjustedTotalValue\<rparr>)"

definition importLotUsage :: "rat \<Rightarrow> LotUsage \<Rightarrow> LotUsage" where
  \<comment> \<open>the inner \<open>lotsUsed.map\<close> of \<open>importData\<close>, for the sale's \<open>pct\<close>\<close>
  "importLotUsage pct lot =
     (let qty = or_else (lu_quantity lot) 0;
          grossCost = or_else (lu_costPerShare lot) 0;
          adjCost = grossCost * (1 + pct)
      in lot\<lparr>lu_costPerShare := adjCost, lu_costBasis := qty * adjCost\<rparr>)"

definition importSale :: "StoredSale \<Rightarrow> SaleResult" where
  "importSale g =
     (let feePercent0 = (case ss_feePercent g of None \<Rightarrow> 1 / 2 | Some f \<Rightarrow> f);
          feePercent = (if feePercent0 < 0 then 1 / 2 else feePercent0);
          grossSellPrice = (case ss_grossSellPrice g of None \<Rightarrow> ss_sellPrice g | Some p \<Rightarrow> p);
          pct = feePercent / 100;
          grossSell = or_else grossSellPrice 0;
          sellPrice = (if ss_sellPrice g = grossSell then grossSell * (1 - pct) else ss_sellPrice g);
          lotsUsed = map (importLotUsage pct) (ss_lotsUsed g);
          quantitySold = or_else (ss_quantitySold g) 0;
          totalCostBasis = foldl (\<lambda>sum lot. sum + or_else (lu_costBasis lot) 0) 0 lotsUsed;
          saleProceeds = quantitySold * or_else sellPrice 0
      in \<lparr>sr_symbol = ss_symbol g,
          sr_quantitySold = ss_quantitySold g,
          sr_sellPrice = sellPrice,
          sr_grossSellPrice = grossSellPrice,
          sr_feePercent = feePercent,
          sr_saleProceeds = saleProceeds,
          sr_totalCostBasis = totalCostBasis,
          sr_capitalGain = saleProceeds - totalCostBasis,
          sr_lotsUsed = lotsUsed,
          sr_saleDate = ss_saleDate g,
          sr_isSimulation = ss_isSimulation g\<rparr>)"

definition importData :: "FIFOQueue \<Rightarrow> Snapshot \<Rightarrow> FIFOQueue" where
  "importData q data =
     \<lparr>holdings =
        (case snap_holdings data of
           None \<Rightarrow> holdings q
         | Some h \<Rightarrow> (\<lambda>symbol. map_option (map importLot) (h symbol))),
      transactions =
        (case snap_transactions data of
           None \<Rightarrow> transactions q
         | Some ts \<Rightarrow> map importTransaction ts),
      realizedGains =
        (case snap_realizedGains data of
           None \<Rightarrow> realizedGains q
         | Some gs \<Rightarrow> map importSale gs)\<rparr>"

section \<open>Sequences of calls\<close>

text \<open>
  A client of the ledger issues \<open>addTransaction\<close> calls one after the other on a ledger
  that starts empty. \<open>run\<close> executes such a sequence and stops at the first call that
  throws, as a script without a handler does.
\<close>

record Call =
  c_type :: string
  c_symbol :: string
  c_quantity :: rat
  c_price :: rat
  c_date :: Date
  c_feePercent :: "rat option"

definition call :: "FIFOQueue \<Rightarrow> Call \<Rightarrow> (error + result) \<times> FIFOQueue" where
  "call q c =
     addTransaction q (c_type c) (c_symbol c) (c_quantity c) (c_price c) (c_date c)
       (c_feePercent c)"

fun run :: "FIFOQueue \<Rightarrow> Call list \<Rightarrow> error + FIFOQueue" where
  "run q [] = Inr q"
| "run q (c # cs) =
     (case call q c of
        (Inl e, q') \<Rightarrow> Inl e
      | (Inr r, q') \<Rightarrow> run q' cs)"

definition buy :: "string \<Rightarrow> rat \<Rightarrow> rat \<Rightarrow> Date \<Rightarrow> rat option \<Rightarrow> Call" where
  "buy symbol quantity price date feePercent =
     \<lparr>c_type = ''BUY'', c_symbol = symbol, c_quantity = quantity, c_price = price,
      c_date = date, c_feePercent = feePercent\<rparr>"

definition sell :: "string \<Rightarrow> rat \<Rightarrow> rat \<Rightarrow> Date \<Rightarrow> rat option \<Rightarrow> Call" where
  "sell symbol quantity price date feePercent =
     \<lparr>c_type = ''SELL'', c_symbol = symbol, c_quantity = quantity, c_price = price,
      c_date = date, c_feePercent = feePercent\<rparr>"

definition isBuy :: "Call \<Rightarrow> bool" where
  "isBuy c = (toUpperCase (c_type c) = ''BUY'')"

definition isSell :: "Call \<Rightarrow> bool" where
  "isSell c = (toUpperCase (c_type c) = ''SELL'')"

definition validBuy :: "Call \<Rightarrow> bool" where
  \<comment> \<open>a BUY with a symbol, a positive quantity and a positive price\<close>
  "validBuy c = (isBuy c \<and> c_symbol c \<noteq> [] \<and> 0 < c_quantity c \<and> 0 < c_price c)"

definition totalBought :: "Call list \<Rightarrow> string \<Rightarrow> rat" where
  "totalBought cs symbol =
     sum_list (map c_quantity (filter (\<lambda>c. isBuy c \<and> toUpperCase (c_symbol c) = symbol) cs))"

definition totalSold :: "Call list \<Rightarrow> string \<Rightarrow> rat" where
  "totalSold cs symbol =
     sum_list (map c_quantity (filter (\<lambda>c. isSell c \<and> toUpperCase (c_symbol c) = symbol) cs))"

definition lotsOf :: "FIFOQueue \<Rightarrow> string \<Rightarrow> Lot list" where
  \<comment> \<open>the symbol's sequence of lots, empty when the symbol has no entry\<close>
  "lotsOf q symbol = (case holdings q symbol of None \<Rightarrow> [] | Some lots \<Rightarrow> lots)"

definition remainingTotal :: "Lot list \<Rightarrow> rat" where
  "remainingTotal lots = sum_list (map lot_remainingQuantity lots)"

definition lotsUsedBy :: "Date \<Rightarrow> Lot list \<Rightarrow> rat \<Rightarrow> LotUsage list" where
  \<comment> \<open>\<open>lotsUsed\<close> when the consumption loop ends\<close>
  "lotsUsedBy settlementDate lots quantity = fst (snd (sell_loop settlementDate lots quantity [] 0))"

definition lotsAfter :: "Date \<Rightarrow> Lot list \<Rightarrow> rat \<Rightarrow> Lot list" where
  \<comment> \<open>the lots when the consumption loop ends, before the consumed ones are filtered out\<close>
  "lotsAfter settlementDate lots quantity = fst (sell_loop settlementDate lots quantity [] 0)"

definition saleRecord ::
  "Lot list \<Rightarrow> string \<Rightarrow> rat \<Rightarrow> rat \<Rightarrow> Date \<Rightarrow> rat option \<Rightarrow> SaleResult" where
  \<comment> \<open>\<open>saleResult\<close> of a SELL that finds the lots \<open>lots\<close> under its symbol, in closed form\<close>
  "saleRecord lots symbol quantity price date feePercent =
     (let settlementDate = calculateSettlementDate date;
          netPrice = price * (1 - normalizeFeePercent feePercent / 100);
          lotsUsed = lotsUsedBy settlementDate lots quantity;
          totalCostBasis = sum_list (map lu_costBasis lotsUsed)
      in \<lparr>sr_symbol = symbol,
          sr_quantitySold = quantity,
          sr_sellPrice = netPrice,
          sr_grossSellPrice = price,
          sr_feePercent = normalizeFeePercent feePercent,
          sr_saleProceeds = quantity * netPrice,
          sr_totalCostBasis = totalCostBasis,
          sr_capitalGain = quantity * netPrice - totalCostBasis,
          sr_lotsUsed = lotsUsed,
          sr_saleDate = settlementDate,
          sr_isSimulation = False\<rparr>)"

text \<open>
  \<open>calculateSale\<close> words its two errors differently from \<open>_processSell\<close> and marks its
  result: the two translations relate the outcomes of the two methods.
\<close>

fun simulationError :: "error \<Rightarrow> error" where
  "simulationError (CannotSellNoHoldings symbol) = NoHoldingsFound symbol"
| "simulationError (CannotSellOnlyAvailable quantity symbol available) =
     InsufficientShares quantity available"
| "simulationError e = e"

fun markSimulation :: "result \<Rightarrow> result" where
  "markSimulation (SaleRecord sale) = SaleRecord (sale\<lparr>sr_isSimulation := True\<rparr>)"
| "markSimulation (TransactionRecord t) = TransactionRecord t"

definition roundTrip :: "FIFOQueue \<Rightarrow> FIFOQueue" where
  \<comment> \<open>\<open>importData(exportData())\<close>\<close>
  "roundTrip q = importData q (exportData q)"

definition buyAccepted :: "Transaction \<Rightarrow> bool" where
  \<comment> \<open>the transactions that pass the guard of \<open>_processBuy\<close>\<close>
  "buyAccepted transaction =
     (tx_symbol transaction \<noteq> [] \<and> 0 < tx_quantity transaction
      \<and> 0 < tx_adjustedPrice transaction)"

section \<open>The worked example\<close>

text \<open>
  BUY 100 OGDC at 100 with fee 0.5 on day \<open>D\<close>, BUY 100 OGDC at 120 with no fee argument
  on day \<open>D + 10\<close>; then SELL 150 OGDC at 150 with fee 0.5 on day \<open>D + 400\<close>.
\<close>

definition workedLedger :: "Date \<Rightarrow> FIFOQueue" where
  "workedLedger D =
     (let q1 = snd (addTransaction constructor ''BUY'' ''OGDC'' 100 100 D (Some (1 / 2)))
      in snd (addTransaction q1 ''BUY'' ''OGDC'' 100 120 (D + 10) None))"

definition workedExample :: "Date \<Rightarrow> (error + result) \<times> FIFOQueue" where
  "workedExample D =
     addTransaction (workedLedger D) ''SELL'' ''OGDC'' 150 150 (D + 400) (Some (1 / 2))"

definition workedBuys :: "Date \<Rightarrow> Call list" where
  "workedBuys D = [buy ''OGDC'' 100 100 D (Some (1 / 2)), buy ''OGDC'' 100 120 (D + 10) None]"

text \<open>
  A purchase of day 11 (Monday 12 January 1970) that is entered before a purchase of
  day 4 (Monday 5 January 1970).
\<close>

definition backfilledBuys :: "Call list" where
  "backfilledBuys = [buy ''OGDC'' 100 100 11 None, buy ''OGDC'' 100 120 4 None]"

definition backfilledLedger :: FIFOQueue where
  "backfilledLedger =
     snd (addTransaction (snd (addTransaction constructor ''BUY'' ''OGDC'' 100 100 11 None))
            ''BUY'' ''OGDC'' 100 120 4 None)"

section \<open>Notions used by the properties\<close>

definition positiveLots :: "FIFOQueue \<Rightarrow> bool" where
  \<comment> \<open>every lot on the ledger has a positive remaining quantity\<close>
  "positiveLots q = (\<forall>symbol. \<forall>lot \<in> set (lotsOf q symbol). 0 < lot_remainingQuantity lot)"

definition reportedQuantity :: "FIFOQueue \<Rightarrow> string \<Rightarrow> rat" where
  \<comment> \<open>the total holding that \<open>getHoldings\<close> reports for a symbol; a symbol it leaves out holds
      nothing\<close>
  "reportedQuantity q symbol =
     (case getHoldings q symbol of None \<Rightarrow> 0 | Some h \<Rightarrow> hs_totalQuantity h)"

section \<open>The settlement date is the second business day after the trade\<close>

lemma settlement_loop_2: "settlement_loop d (Suc (Suc 0)) = d"
  by (subst settlement_loop.simps) simp

lemma settlement_loop_1: "settlement_loop d (Suc 0) =
   (if isBusinessDay (d + 1) then d + 1 else settlement_loop (d + 1) (Suc 0))"
  by (subst settlement_loop.simps) (simp add: Let_def settlement_loop_2 isBusinessDay_def)

lemma settlement_loop_0: "settlement_loop d 0 =
   (if isBusinessDay (d + 1) then settlement_loop (d + 1) (Suc 0) else settlement_loop (d + 1) 0)"
  by (subst settlement_loop.simps) (simp add: Let_def isBusinessDay_def)

lemma settle_2:
  assumes "isBusinessDay (d + 1)" "isBusinessDay (d + 1 + 1)"
  shows "calculateSettlementDate d = d + 1 + 1"
proof -
  have "settlement_loop d 0 = settlement_loop (d + 1) (Suc 0)"
    using assms(1) by (subst settlement_loop_0) simp
  also have "\<dots> = d + 1 + 1"
    using assms(2) by (subst settlement_loop_1) simp
  finally show ?thesis by (simp add: calculateSettlementDate_def)
qed

lemma settle_3:
  assumes "\<not> isBusinessDay (d + 1)" "isBusinessDay (d + 1 + 1)" "isBusinessDay (d + 1 + 1 + 1)"
  shows "calculateSettlementDate d = d + 1 + 1 + 1"
proof -
  have "settlement_loop d 0 = settlement_loop (d + 1) 0"
    using assms(1) by (subst settlement_loop_0) simp
  also have "\<dots> = settlement_loop (d + 1 + 1) (Suc 0)"
    using assms(2) by (subst settlement_loop_0) simp
  also have "\<dots> = d + 1 + 1 + 1"
    using assms(3) by (subst settlement_loop_1) simp
  finally show ?thesis by (simp add: calculateSettlementDate_def)
qed

lemma settle_4_thu:
  assumes "isBusinessDay (d + 1)" "\<not> isBusinessDay (d + 1 + 1)"
    "\<not> isBusinessDay (d + 1 + 1 + 1)" "isBusinessDay (d + 1 + 1 + 1 + 1)"
  shows "calculateSettlementDate d = d + 1 + 1 + 1 + 1"
proof -
  have "settlement_loop d 0 = settlement_loop (d + 1) (Suc 0)"
    using assms(1) by (subst settlement_loop_0) simp
  also have "\<dots> = settlement_loop (d + 1 + 1) (Suc 0)"
    using assms(2) by (subst settlement_loop_1) simp
  also have "\<dots> = settlement_loop (d + 1 + 1 + 1) (Suc 0)"
    using assms(3) by (subst settlement_loop_1) simp
  also have "\<dots> = d + 1 + 1 + 1 + 1"
    using assms(4) by (subst settlement_loop_1) simp
  finally show ?thesis by (simp add: calculateSettlementDate_def)
qed

lemma settle_4_fri:
  assumes "\<not> isBusinessDay (d + 1)" "\<not> isBusinessDay (d + 1 + 1)"
    "isBusinessDay (d + 1 + 1 + 1)" "isBusinessDay (d + 1 + 1 + 1 + 1)"
  shows "calculateSettlementDate d = d + 1 + 1 + 1 + 1"
proof -
  have "settlement_loop d 0 = settlement_loop (d + 1) 0"
    using assms(1) by (subst settlement_loop_0) simp
  also have "\<dots> = settlement_loop (d + 1 + 1) 0"
    using assms(2) by (subst settlement_loop_0) simp
  also have "\<dots> = settlement_loop (d + 1 + 1 + 1) (Suc 0)"
    using assms(3) by (subst settlement_loop_0) simp
  also have "\<dots> = d + 1 + 1 + 1 + 1"
    using assms(4) by (subst settlement_loop_1) simp
  finally show ?thesis by (simp add: calculateSettlementDate_def)
qed

lemma getDay_bounds: "0 \<le> getDay d" "getDay d < 7"
  by (simp_all add: getDay_def)

lemma getDay_range:
  "getDay d = 0 \<or> getDay d = 1 \<or> getDay d = 2 \<or> getDay d = 3 \<or> getDay d = 4
     \<or> getDay d = 5 \<or> getDay d = 6"
  using getDay_bounds [of d] by arith

lemma getDay_succ_mod: "getDay (d + 1) = (getDay d + 1) mod 7"
  unfolding getDay_def by presburger

lemma getDay_succ: "getDay (d + 1) = (if getDay d = 6 then 0 else getDay d + 1)"
  using getDay_range [of d] by (auto simp: getDay_succ_mod)

lemma calculateSettlementDate_closed:
  "calculateSettlementDate t =
     t + (if getDay t = 4 \<or> getDay t = 5 then 4 else if getDay t = 6 then 3 else 2)"
proof -
  consider "getDay t = 0 \<or> getDay t = 1 \<or> getDay t = 2 \<or> getDay t = 3"
    | "getDay t = 4" | "getDay t = 5" | "getDay t = 6"
    using getDay_range [of t] by blast
  then show ?thesis
  proof cases
    case 1
    then have "isBusinessDay (t + 1)" "isBusinessDay (t + 1 + 1)"
      unfolding isBusinessDay_def getDay_succ by auto
    then have "calculateSettlementDate t = t + 1 + 1"
      by (rule settle_2)
    then show ?thesis using 1 by auto
  next
    case 2
    then have "isBusinessDay (t + 1)" "\<not> isBusinessDay (t + 1 + 1)"
      "\<not> isBusinessDay (t + 1 + 1 + 1)" "isBusinessDay (t + 1 + 1 + 1 + 1)"
      unfolding isBusinessDay_def getDay_succ by simp_all
    then have "calculateSettlementDate t = t + 1 + 1 + 1 + 1"
      by (rule settle_4_thu)
    then show ?thesis using 2 by simp
  next
    case 3
    then have "\<not> isBusinessDay (t + 1)" "\<not> isBusinessDay (t + 1 + 1)"
      "isBusinessDay (t + 1 + 1 + 1)" "isBusinessDay (t + 1 + 1 + 1 + 1)"
      unfolding isBusinessDay_def getDay_succ by simp_all
    then have "calculateSettlementDate t = t + 1 + 1 + 1 + 1"
      by (rule settle_4_fri)
    then show ?thesis using 3 by simp
  next
    case 4
    then have "\<not> isBusinessDay (t + 1)" "isBusinessDay (t + 1 + 1)"
      "isBusinessDay (t + 1 + 1 + 1)"
      unfolding isBusinessDay_def getDay_succ by simp_all
    then have "calculateSettlementDate t = t + 1 + 1 + 1"
      by (rule settle_3)
    then show ?thesis using 4 by simp
  qed
qed

lemma upto_from_succ:
  "[t + 1 .. t + 4] = [t + 1, t + 2, t + 3, t + (4::int)]"
  "[t + 1 .. t + 3] = [t + 1, t + 2, t + (3::int)]"
  "[t + 1 .. t + 2] = [t + 1, t + (2::int)]"
  by (simp_all add: upto_rec1)

lemma getDay_shift:
  "getDay (t + 1) = (getDay t + 1) mod 7" "getDay (t + 2) = (getDay t + 2) mod 7"
  "getDay (t + 3) = (getDay t + 3) mod 7" "getDay (t + 4) = (getDay t + 4) mod 7"
  unfolding getDay_def by presburger+

text \<open>
  Claim C10. For every trade date \<open>t\<close>, \<open>calculateSettlementDate\<close> returns (the loop ends,
  after at most four iterations) a date \<open>s\<close> that is strictly later than \<open>t\<close>, falls on a
  weekday (Monday to Friday), and is exactly two business days after \<open>t\<close>: of the days
  \<open>t + 1, \<dots>, s\<close>, exactly two are neither Saturday nor Sunday. The result is a function
  of \<open>t\<close> alone.
\<close>

theorem calculateSettlementDate_two_business_days:
  "let s = calculateSettlementDate t
   in t < s \<and> s \<le> t + 4 \<and> isBusinessDay s
      \<and> getDay s \<in> {1, 2, 3, 4, 5}
      \<and> length (filter isBusinessDay [t + 1 .. s]) = 2"
proof -
  note d = getDay_shift [of t]
  show ?thesis
    using getDay_range [of t] unfolding calculateSettlementDate_closed Let_def
    by (elim disjE) (simp_all add: upto_from_succ isBusinessDay_def d)
qed

section \<open>The consumption loop\<close>

lemma foldl_plus: "foldl (\<lambda>s x. s + f x) (a::rat) xs = a + sum_list (map f xs)"
  by (induction xs arbitrary: a) (simp_all add: add.assoc)

lemma totalAvailable_sum: "totalAvailable lots = sum_list (map lot_remainingQuantity lots)"
  by (simp add: totalAvailable_def foldl_plus)

lemma sell_loop_acc:
  "sell_loop sd ls r used tcb =
     (case sell_loop sd ls r [] 0 of (ls', u, c) \<Rightarrow> (ls', used @ u, tcb + c))"
proof (induction ls arbitrary: r used tcb)
  case Nil
  show ?case by simp
next
  case (Cons lot ls)
  let ?t = "min (lot_remainingQuantity lot) r"
  have a: "sell_loop sd ls (r - ?t) (used @ [lotUsage sd lot ?t]) (tcb + ?t * lot_price lot) =
      (case sell_loop sd ls (r - ?t) [] 0 of (ls', u, c) \<Rightarrow> (ls', (used @ [lotUsage sd lot ?t]) @ u, (tcb + ?t * lot_price lot) + c))"
    by (rule Cons.IH)
  have b: "sell_loop sd ls (r - ?t) [lotUsage sd lot ?t] (?t * lot_price lot) =
      (case sell_loop sd ls (r - ?t) [] 0 of (ls', u, c) \<Rightarrow> (ls', lotUsage sd lot ?t # u, ?t * lot_price lot + c))"
    using Cons.IH [of "r - ?t" "[lotUsage sd lot ?t]" "?t * lot_price lot"] by simp
  have c: "sell_loop sd ls r used tcb = (case sell_loop sd ls r [] 0 of (ls', u, c) \<Rightarrow> (ls', used @ u, tcb + c))"
    by (rule Cons.IH)
  show ?case
    by (simp add: Let_def a b c add.assoc split: prod.splits)
qed

lemma simulate_loop_sell_loop:
  "simulate_loop sd ls r used tcb = snd (sell_loop sd ls r used tcb)"
  by (induction ls arbitrary: r used tcb) (simp_all add: Let_def split: prod.splits)

lemma lotsUsedBy_Nil [simp]: "lotsUsedBy sd [] r = []"
  by (simp add: lotsUsedBy_def)

lemma lotsUsedBy_Cons:
  "lotsUsedBy sd (lot # ls) r =
     (if r > 0 then
        (if min (lot_remainingQuantity lot) r > 0
         then lotUsage sd lot (min (lot_remainingQuantity lot) r)
                # lotsUsedBy sd ls (r - min (lot_remainingQuantity lot) r)
         else lotsUsedBy sd ls r)
      else [])"
  unfolding lotsUsedBy_def
  by (simp add: Let_def sell_loop_acc [of _ _ _ "[_]" "_ * _"] split: prod.splits)

lemma lotsAfter_Nil [simp]: "lotsAfter sd [] r = []"
  by (simp add: lotsAfter_def)

lemma lotsAfter_Cons:
  "lotsAfter sd (lot # ls) r =
     (if r > 0 then
        (if min (lot_remainingQuantity lot) r > 0
         then lot\<lparr>lot_remainingQuantity := lot_remainingQuantity lot - min (lot_remainingQuantity lot) r\<rparr>
                # lotsAfter sd ls (r - min (lot_remainingQuantity lot) r)
         else lot # lotsAfter sd ls r)
      else lot # ls)"
  unfolding lotsAfter_def
  by (simp add: Let_def sell_loop_acc [of _ _ _ "[_]" "_ * _"] split: prod.splits)

lemma sell_loop_cost:
  "snd (snd (sell_loop sd ls r [] 0)) = sum_list (map lu_costBasis (lotsUsedBy sd ls r))"
proof (induction ls arbitrary: r)
  case Nil
  show ?case by simp
next
  case (Cons lot ls)
  show ?case
    using Cons.IH [of r] Cons.IH [of "r - min (lot_remainingQuantity lot) r"]
    by (simp add: lotsUsedBy_Cons)
       (auto simp: lotsUsedBy_def Let_def lotUsage_def sell_loop_acc [of _ _ _ "[_]" "_ * _"] split: prod.splits)
qed

lemma sell_loop_eq:
  "sell_loop sd ls r [] 0 =
     (lotsAfter sd ls r, lotsUsedBy sd ls r, sum_list (map lu_costBasis (lotsUsedBy sd ls r)))"
  using sell_loop_cost [of sd ls r]
  by (simp add: lotsAfter_def lotsUsedBy_def prod_eq_iff)

lemma lotsUsedBy_nonpos [simp]: "r \<le> 0 \<Longrightarrow> lotsUsedBy sd ls r = []"
  by (cases ls) (simp_all add: lotsUsedBy_Cons)

lemma lotsAfter_nonpos [simp]: "r \<le> 0 \<Longrightarrow> lotsAfter sd ls r = ls"
  by (cases ls) (simp_all add: lotsAfter_Cons)

lemma used_quantity_sum:
  "\<forall>lot \<in> set ls. 0 \<le> lot_remainingQuantity lot \<Longrightarrow> 0 \<le> r
     \<Longrightarrow> r \<le> sum_list (map lot_remainingQuantity ls)
     \<Longrightarrow> sum_list (map lu_quantity (lotsUsedBy sd ls r)) = r"
proof (induction ls arbitrary: r)
  case Nil
  then show ?case by simp
next
  case (Cons lot ls)
  have nn: "0 \<le> sum_list (map lot_remainingQuantity ls)"
    using Cons.prems(1) by (intro sum_list_nonneg) auto
  show ?case
  proof (cases "lot_remainingQuantity lot \<le> r")
    case True
    have "sum_list (map lu_quantity (lotsUsedBy sd ls (r - lot_remainingQuantity lot))) = r - lot_remainingQuantity lot"
      using Cons.prems True by (intro Cons.IH) auto
    moreover have "sum_list (map lu_quantity (lotsUsedBy sd ls r)) = r" if "lot_remainingQuantity lot = 0"
      using Cons.prems that by (intro Cons.IH) auto
    ultimately show ?thesis
      using True Cons.prems by (auto simp: lotsUsedBy_Cons min_def lotUsage_def)
  next
    case False
    then show ?thesis
      using Cons.prems by (auto simp: lotsUsedBy_Cons min_def lotUsage_def)
  qed
qed

lemma after_remaining_sum:
  "\<forall>lot \<in> set ls. 0 \<le> lot_remainingQuantity lot \<Longrightarrow> 0 \<le> r
     \<Longrightarrow> r \<le> sum_list (map lot_remainingQuantity ls)
     \<Longrightarrow> sum_list (map lot_remainingQuantity (lotsAfter sd ls r)) = sum_list (map lot_remainingQuantity ls) - r"
proof (induction ls arbitrary: r)
  case Nil
  then show ?case by simp
next
  case (Cons lot ls)
  have nn: "0 \<le> sum_list (map lot_remainingQuantity ls)"
    using Cons.prems(1) by (intro sum_list_nonneg) auto
  show ?case
  proof (cases "lot_remainingQuantity lot \<le> r")
    case True
    have "sum_list (map lot_remainingQuantity (lotsAfter sd ls (r - lot_remainingQuantity lot)))
        = sum_list (map lot_remainingQuantity ls) - (r - lot_remainingQuantity lot)"
      using Cons.prems True by (intro Cons.IH) auto
    moreover have "sum_list (map lot_remainingQuantity (lotsAfter sd ls r)) = sum_list (map lot_remainingQuantity ls) - r" if "lot_remainingQuantity lot = 0"
      using Cons.prems that by (intro Cons.IH) auto
    ultimately show ?thesis
      using True Cons.prems by (auto simp: lotsAfter_Cons min_def)
  next
    case False
    then show ?thesis
      using Cons.prems by (auto simp: lotsAfter_Cons min_def)
  qed
qed

lemma after_remaining_nonneg:
  "\<forall>lot \<in> set ls. 0 \<le> lot_remainingQuantity lot
     \<Longrightarrow> \<forall>lot \<in> set (lotsAfter sd ls r). 0 \<le> lot_remainingQuantity lot"
proof (induction ls arbitrary: r)
  case Nil
  then show ?case by simp
next
  case (Cons lot ls)
  then show ?case
    by (auto simp: lotsAfter_Cons min_def)
qed

lemma filter_positive_sum:
  "\<forall>lot \<in> set ls. 0 \<le> lot_remainingQuantity lot
    \<Longrightarrow> sum_list (map lot_remainingQuantity (filter (\<lambda>lot. lot_remainingQuantity lot > 0) ls))
        = sum_list (map lot_remainingQuantity ls)"
  by (induction ls) auto

section \<open>Basic facts\<close>

lemma or_else_zero [simp]: "or_else a 0 = a"
  by (simp add: or_else_def)

lemma normalizeFeePercent_nonneg: "0 \<le> normalizeFeePercent fee"
  by (simp add: normalizeFeePercent_def split: option.splits)

lemma normalizeFeePercent_idem [simp]:
  "normalizeFeePercent (Some (normalizeFeePercent fee)) = normalizeFeePercent fee"
  by (simp add: normalizeFeePercent_def split: option.splits)

lemma toUpperCase_SELL [simp]: "toUpperCase ''SELL'' = ''SELL''"
  by (simp add: toUpperCase_def toUpperCase_char_def)

lemma toUpperCase_BUY [simp]: "toUpperCase ''BUY'' = ''BUY''"
  by (simp add: toUpperCase_def toUpperCase_char_def)

lemma toUpperCase_OGDC [simp]: "toUpperCase ''OGDC'' = ''OGDC''"
  by (simp add: toUpperCase_def toUpperCase_char_def)

lemma toUpperCase_Nil_iff [simp]: "toUpperCase s = [] \<longleftrightarrow> s = []"
  by (simp add: toUpperCase_def)

subsection \<open>The two branches of \<open>addTransaction\<close> in closed form\<close>

lemma addTransaction_sell:
  assumes "toUpperCase type = ''SELL''"
  shows "addTransaction q type symbol quantity price date fee =
     (let lots = lotsOf q (toUpperCase symbol);
          sale = saleRecord lots (toUpperCase symbol) quantity price date fee
      in if lots = [] then (Inl (CannotSellNoHoldings (toUpperCase symbol)), q)
         else if remainingTotal lots < quantity
         then (Inl (CannotSellOnlyAvailable quantity (toUpperCase symbol) (remainingTotal lots)), q)
         else (Inr (SaleRecord sale),
               q\<lparr>holdings := (holdings q)(toUpperCase symbol \<mapsto>
                     filter (\<lambda>lot. lot_remainingQuantity lot > 0)
                       (lotsAfter (calculateSettlementDate date) lots quantity)),
                 realizedGains := realizedGains q @ [sale]\<rparr>))"
  using assms
  by (simp add: addTransaction_def newTransaction_def processSell_def Let_def lotsOf_def
        saleRecord_def remainingTotal_def totalAvailable_sum sell_loop_eq getAdjustedPrice_def
      split: option.splits)

lemma calculateSale_eq:
  "calculateSale q symbol quantity price date fee =
     (let lots = lotsOf q (toUpperCase symbol);
          sale = saleRecord lots (toUpperCase symbol) quantity price date fee
      in if lots = [] then (Inl (NoHoldingsFound (toUpperCase symbol)), q)
         else if remainingTotal lots < quantity
         then (Inl (InsufficientShares quantity (remainingTotal lots)), q)
         else (Inr (sale\<lparr>sr_isSimulation := True\<rparr>), q))"
  by (simp add: calculateSale_def Let_def lotsOf_def saleRecord_def
        remainingTotal_def totalAvailable_sum sell_loop_eq getAdjustedPrice_def
        simulate_loop_sell_loop
      split: option.splits)

lemma processBuy_eq:
  "processBuy q tx =
     (if buyAccepted tx
      then q\<lparr>holdings := (holdings q)(tx_symbol tx \<mapsto> lotsOf q (tx_symbol tx) @ [newLot tx])\<rparr>
      else q)"
  by (auto simp: processBuy_def buyAccepted_def lotsOf_def Let_def)

lemma addTransaction_buy:
  assumes "toUpperCase type = ''BUY''"
  shows "addTransaction q type symbol quantity price date fee =
     (let tx = newTransaction q type symbol quantity price date fee
      in (Inr (TransactionRecord tx),
          (if buyAccepted tx
           then q\<lparr>holdings := (holdings q)(tx_symbol tx \<mapsto> lotsOf q (tx_symbol tx) @ [newLot tx])\<rparr>
           else q)\<lparr>transactions := transactions q @ [tx]\<rparr>))"
  using assms
  by (simp add: addTransaction_def processBuy_eq Let_def newTransaction_def)

lemma addTransaction_sale_cases:
  assumes "addTransaction q type symbol quantity price date fee = (Inr (SaleRecord sale), q')"
  shows "toUpperCase type = ''SELL''"
  using assms
  by (auto simp: addTransaction_def newTransaction_def Let_def
      split: if_splits prod.splits sum.splits)

lemma used_quantity_total:
  "0 \<le> r \<Longrightarrow> r \<le> sum_list (map lot_remainingQuantity ls)
     \<Longrightarrow> sum_list (map lu_quantity (lotsUsedBy sd ls r)) = r"
proof (induction ls arbitrary: r)
  case Nil
  then show ?case by simp
next
  case (Cons lot ls)
  consider "lot_remainingQuantity lot \<le> 0"
    | "0 < lot_remainingQuantity lot" "lot_remainingQuantity lot \<le> r"
    | "r < lot_remainingQuantity lot" by linarith
  then show ?case
  proof cases
    case 1
    then have "sum_list (map lu_quantity (lotsUsedBy sd ls r)) = r"
      using Cons.prems by (intro Cons.IH) auto
    then show ?thesis using 1 Cons.prems by (auto simp: lotsUsedBy_Cons min_def)
  next
    case 2
    then have "sum_list (map lu_quantity (lotsUsedBy sd ls (r - lot_remainingQuantity lot)))
        = r - lot_remainingQuantity lot"
      using Cons.prems by (intro Cons.IH) auto
    then show ?thesis using 2 Cons.prems by (auto simp: lotsUsedBy_Cons min_def lotUsage_def)
  next
    case 3
    then show ?thesis using Cons.prems by (auto simp: lotsUsedBy_Cons min_def lotUsage_def)
  qed
qed

subsection \<open>The worked ledger\<close>

lemma calculateSettlementDate_numeral [simp]:
  "calculateSettlementDate 0 = 4" "calculateSettlementDate 10 = 12"
  "calculateSettlementDate 400 = 404"
  by (simp_all add: calculateSettlementDate_closed getDay_def)

lemma workedLedger_lots:
  "lotsOf (workedLedger D) ''OGDC''
    = [newLot (newTransaction constructor ''BUY'' ''OGDC'' 100 100 D (Some (1 / 2))),
       newLot (newTransaction
                 (snd (addTransaction constructor ''BUY'' ''OGDC'' 100 100 D (Some (1 / 2))))
                 ''BUY'' ''OGDC'' 100 120 (D + 10) None)]"
  by (simp add: workedLedger_def addTransaction_buy Let_def buyAccepted_def newTransaction_def
       getAdjustedPrice_def normalizeFeePercent_def lotsOf_def constructor_def)

lemma workedLedger_remaining:
  "map lot_remainingQuantity (lotsOf (workedLedger D) ''OGDC'') = [100, 100]"
  "map lot_price (lotsOf (workedLedger D) ''OGDC'') = [100.5, 120.6]"
  "map lot_purchaseDate (lotsOf (workedLedger D) ''OGDC'')
     = [calculateSettlementDate D, calculateSettlementDate (D + 10)]"
  by (simp_all add: workedLedger_lots newLot_def newTransaction_def getAdjustedPrice_def
       normalizeFeePercent_def Let_def)

lemma workedLedger_trails:
  "map tx_type (transactions (workedLedger D)) = [''BUY'', ''BUY'']"
  "map tx_id (transactions (workedLedger D)) = [1, 2]"
  "realizedGains (workedLedger D) = []"
  by (simp_all add: workedLedger_def addTransaction_buy Let_def newTransaction_def constructor_def)

lemma workedLedger_total:
  "remainingTotal (lotsOf (workedLedger D) ''OGDC'') = 200"
  "lotsOf (workedLedger D) ''OGDC'' \<noteq> []"
  by (simp_all add: remainingTotal_def workedLedger_remaining) (simp add: workedLedger_lots)

section \<open>Simulation and failure of a SELL\<close>

text \<open>
  Claim C6. \<open>calculateSale\<close> is the SELL path of \<open>addTransaction\<close> without its effects: on
  every ledger and for every symbol, quantity, price, date and fee percent, its outcome is
  the outcome of the SELL, with the error reworded (\<open>simulationError\<close>) or the sale marked
  as a simulation (\<open>markSimulation\<close>; all other fields of the sale are equal: symbol,
  quantity sold, net and gross sell price, fee percent, lot consumption records, total
  cost basis, sale proceeds, capital gain and sale date). It fails exactly when the SELL
  fails, and it leaves the ledger as it found it.
\<close>

theorem calculateSale_simulates_sell:
  "map_sum id SaleRecord (fst (calculateSale q symbol quantity price date fee))
     = map_sum simulationError markSimulation
         (fst (addTransaction q ''SELL'' symbol quantity price date fee))
   \<and> isl (fst (calculateSale q symbol quantity price date fee))
     = isl (fst (addTransaction q ''SELL'' symbol quantity price date fee))
   \<and> snd (calculateSale q symbol quantity price date fee) = q"
  by (simp add: calculateSale_eq addTransaction_sell Let_def)



section \<open>The identities of a Realized Sale\<close>


lemma workedExample_succeeds:
  "\<exists>sale q'. workedExample 0 = (Inr (SaleRecord sale), q')"
  by (simp add: workedExample_def addTransaction_sell Let_def workedLedger_total)



section \<open>The worked example, evaluated\<close>


section \<open>A rejected BUY\<close>

lemma getHoldings_transactions [simp]:
  "getHoldings (q\<lparr>transactions := ts\<rparr>) = getHoldings q"
  by (simp add: getHoldings_def)

lemma newTransaction_fields [simp]:
  "tx_symbol (newTransaction q type symbol quantity price date fee) = toUpperCase symbol"
  "tx_quantity (newTransaction q type symbol quantity price date fee) = quantity"
  "tx_type (newTransaction q type symbol quantity price date fee) = toUpperCase type"
  "tx_settlementDate (newTransaction q type symbol quantity price date fee)
     = calculateSettlementDate date"
  by (simp_all add: newTransaction_def Let_def)

lemma newTransaction_buy_price:
  "tx_adjustedPrice (newTransaction q ''BUY'' symbol quantity price date fee)
     = price * (1 + normalizeFeePercent fee / 100)"
  by (simp add: newTransaction_def getAdjustedPrice_def Let_def)

lemma buy_price_sign:
  "0 < price * (1 + normalizeFeePercent fee / 100) \<longleftrightarrow> 0 < price"
proof -
  have "0 < 1 + normalizeFeePercent fee / 100"
    using normalizeFeePercent_nonneg [of fee] by (simp add: add_pos_nonneg)
  then show ?thesis by (simp add: zero_less_mult_iff)
qed

lemma buyAccepted_buy:
  "buyAccepted (newTransaction q ''BUY'' symbol quantity price date fee)
     \<longleftrightarrow> symbol \<noteq> [] \<and> 0 < quantity \<and> 0 < price"
  by (simp add: buyAccepted_def newTransaction_buy_price buy_price_sign)

text \<open>
  Claim C5, amended. For every BUY through \<open>addTransaction\<close> with a non-positive quantity
  or a non-positive price, no failure reaches the caller: the call returns the Transaction
  record it built, no Lot is created, and holdings and realized gains are unchanged.
\<close>

theorem invalid_buy_returns_normally:
  assumes "quantity \<le> 0 \<or> price \<le> 0"
  shows "fst (addTransaction q ''BUY'' symbol quantity price date fee)
       = Inr (TransactionRecord (newTransaction q ''BUY'' symbol quantity price date fee))
     \<and> holdings (snd (addTransaction q ''BUY'' symbol quantity price date fee)) = holdings q
     \<and> getHoldings (snd (addTransaction q ''BUY'' symbol quantity price date fee))
         = getHoldings q
     \<and> getRealizedGains (snd (addTransaction q ''BUY'' symbol quantity price date fee))
         = getRealizedGains q"
proof -
  have "\<not> buyAccepted (newTransaction q ''BUY'' symbol quantity price date fee)"
    using assms by (auto simp: buyAccepted_buy)
  then show ?thesis
    by (simp add: addTransaction_buy Let_def getRealizedGains_def)
qed

theorem invalid_buy_returns_normally_witness:
  "((0::rat) \<le> 0 \<or> (100::rat) \<le> 0)
   \<and> fst (addTransaction constructor ''BUY'' ''OGDC'' 0 100 0 None)
       = Inr (TransactionRecord (newTransaction constructor ''BUY'' ''OGDC'' 0 100 0 None))
   \<and> holdings (snd (addTransaction constructor ''BUY'' ''OGDC'' 0 100 0 None))
       = holdings constructor
   \<and> getHoldings (snd (addTransaction constructor ''BUY'' ''OGDC'' 0 100 0 None))
       = getHoldings constructor
   \<and> getRealizedGains (snd (addTransaction constructor ''BUY'' ''OGDC'' 0 100 0 None))
       = getRealizedGains constructor"
proof -
  have h: "(0::rat) \<le> 0 \<or> (100::rat) \<le> 0" by simp
  show ?thesis
    using h invalid_buy_returns_normally [OF h, of constructor "''OGDC''" 0 None]
    by (simp only: simp_thms)
qed

text \<open>
  Claim C5 as stated fails: a BUY of quantity 0 on the empty ledger returns normally, and
  its Transaction record is on the audit trail afterwards.
\<close>

theorem invalid_buy_counterexample:
  "fst (addTransaction constructor ''BUY'' ''OGDC'' 0 100 0 None)
     = Inr (TransactionRecord
         \<lparr>tx_id = 1, tx_type = ''BUY'', tx_symbol = ''OGDC'', tx_quantity = 0, tx_price = 100,
          tx_adjustedPrice = 100.5, tx_feePercent = 0.5, tx_tradeDate = 0,
          tx_settlementDate = 4, tx_totalValue = 0, tx_adjustedTotalValue = 0\<rparr>)
   \<and> getTransactions (snd (addTransaction constructor ''BUY'' ''OGDC'' 0 100 0 None))
     = [\<lparr>tx_id = 1, tx_type = ''BUY'', tx_symbol = ''OGDC'', tx_quantity = 0, tx_price = 100,
          tx_adjustedPrice = 100.5, tx_feePercent = 0.5, tx_tradeDate = 0,
          tx_settlementDate = 4, tx_totalValue = 0, tx_adjustedTotalValue = 0\<rparr>]"
  by (simp add: addTransaction_buy Let_def newTransaction_def getAdjustedPrice_def
        normalizeFeePercent_def getTransactions_def constructor_def)

section \<open>The audit trail after a SELL\<close>

lemma workedLedger_length: "length (transactions (workedLedger D)) = 2"
  by (simp add: workedLedger_def addTransaction_buy Let_def constructor_def)

lemma workedExample_ok:
  "\<not> isl (fst (workedExample 0))"
  "transactions (snd (workedExample 0)) = transactions (workedLedger 0)"
    by (simp_all add: workedExample_def addTransaction_sell Let_def workedLedger_total)

text \<open>
  Claim C2 at the worked example: the SELL succeeds, and \<open>getTransactions\<close> returns after
  it what it returned before it, the two BUY records. (\<open>addTransaction\<close> returns the
  result of \<open>_processSell\<close> before it reaches \<open>this.transactions.push\<close>.)
\<close>

theorem sell_appends_no_transaction:
  "\<not> isl (fst (workedExample 0))
   \<and> getTransactions (snd (workedExample 0)) = getTransactions (workedLedger 0)
   \<and> map tx_type (getTransactions (snd (workedExample 0))) = [''BUY'', ''BUY'']
   \<and> length (getTransactions (snd (workedExample 0))) = 2"
  by (simp add: getTransactions_def workedExample_ok workedLedger_trails workedLedger_length)

section \<open>Export followed by import\<close>

lemma roundTrip_realizedGains:
  "realizedGains (roundTrip q) = map (\<lambda>g. importSale (storeSale g)) (realizedGains q)"
  by (simp add: roundTrip_def importData_def exportData_def)

lemma workedExample_gains:
  "realizedGains (snd (workedExample 0))
     = [saleRecord (lotsOf (workedLedger 0) ''OGDC'') ''OGDC'' 150 150 400 (Some (1 / 2))]"
  by (simp add: workedExample_def addTransaction_sell Let_def workedLedger_total
        workedLedger_trails)

lemma workedSale_lotsUsed:
  "map lu_quantity (sr_lotsUsed (saleRecord (lotsOf (workedLedger 0) ''OGDC'') ''OGDC'' 150 150 400 (Some (1 / 2)))) = [100, 50]"
  "map lu_costPerShare (sr_lotsUsed (saleRecord (lotsOf (workedLedger 0) ''OGDC'') ''OGDC'' 150 150 400 (Some (1 / 2)))) = [100.5, 120.6]"
  "map lu_costBasis (sr_lotsUsed (saleRecord (lotsOf (workedLedger 0) ''OGDC'') ''OGDC'' 150 150 400 (Some (1 / 2)))) = [10050, 6030]"
  by (simp_all add: Let_def workedLedger_lots 
        newLot_def newTransaction_def getAdjustedPrice_def normalizeFeePercent_def
        saleRecord_def lotsUsedBy_Cons lotUsage_def)

lemma importSale_lotsUsed:
  "map lu_costPerShare (sr_lotsUsed (importSale (storeSale g)))
     = map (\<lambda>c. c * (1 + (if sr_feePercent g < 0 then 1 / 2 else sr_feePercent g) / 100))
         (map lu_costPerShare (sr_lotsUsed g))"
  by (simp add: importSale_def storeSale_def importLotUsage_def Let_def comp_def)

lemma workedSale_pairs:
  "map (\<lambda>u. (lu_quantity u, lu_costPerShare u))
     (sr_lotsUsed (saleRecord (lotsOf (workedLedger 0) ''OGDC'') ''OGDC'' 150 150 400 (Some (1 / 2))))
     = [(100, 100.5), (50, 120.6)]"
  by (simp add: Let_def workedLedger_lots
        newLot_def newTransaction_def getAdjustedPrice_def normalizeFeePercent_def
        saleRecord_def lotsUsedBy_Cons lotUsage_def)

lemma workedSale_fields:
  "sr_feePercent (saleRecord (lotsOf (workedLedger 0) ''OGDC'') ''OGDC'' 150 150 400 (Some (1 / 2))) = 1 / 2"
  "sr_quantitySold (saleRecord (lotsOf (workedLedger 0) ''OGDC'') ''OGDC'' 150 150 400 (Some (1 / 2))) = 150"
  "sr_sellPrice (saleRecord (lotsOf (workedLedger 0) ''OGDC'') ''OGDC'' 150 150 400 (Some (1 / 2))) = 149.25"
  "sr_grossSellPrice (saleRecord (lotsOf (workedLedger 0) ''OGDC'') ''OGDC'' 150 150 400 (Some (1 / 2))) = 150"
  by (simp_all add: saleRecord_def Let_def normalizeFeePercent_def)

lemma workedSale_totals:
  "sr_totalCostBasis (saleRecord (lotsOf (workedLedger 0) ''OGDC'') ''OGDC'' 150 150 400 (Some (1 / 2))) = 16080"
  "sr_capitalGain (saleRecord (lotsOf (workedLedger 0) ''OGDC'') ''OGDC'' 150 150 400 (Some (1 / 2))) = 6307.5"
  by (simp_all add: Let_def workedLedger_lots
        newLot_def newTransaction_def getAdjustedPrice_def normalizeFeePercent_def
        saleRecord_def lotsUsedBy_Cons lotUsage_def)

lemma importSale_totalCostBasis:
  "sr_totalCostBasis (importSale (storeSale g))
     = sum_list (map (\<lambda>(n, c). n * (c * (1 + (if sr_feePercent g < 0 then 1 / 2 else sr_feePercent g) / 100)))
         (map (\<lambda>u. (lu_quantity u, lu_costPerShare u)) (sr_lotsUsed g)))"
  by (simp add: importSale_def storeSale_def importLotUsage_def Let_def comp_def foldl_plus)

lemma importSale_capitalGain:
  "sr_capitalGain (importSale (storeSale g))
     = sr_quantitySold g
         * (if sr_sellPrice g = sr_grossSellPrice g
            then sr_grossSellPrice g * (1 - (if sr_feePercent g < 0 then 1 / 2 else sr_feePercent g) / 100)
            else sr_sellPrice g)
       - sr_totalCostBasis (importSale (storeSale g))"
  by (simp add: importSale_def storeSale_def Let_def)

text \<open>
  Claim C1 at the worked example: \<open>importData(exportData())\<close> multiplies the cost per
  share of every lot consumption record by \<open>1 + feePercent / 100\<close> once more, and recomputes
  the cost basis and the capital gain of the Realized Sale from it.
\<close>

theorem round_trip_inflates_cost:
  "map (\<lambda>g. map lu_costPerShare (sr_lotsUsed g)) (getRealizedGains (snd (workedExample 0)))
     = [[100.5, 120.6]]
   \<and> map (\<lambda>g. map lu_costPerShare (sr_lotsUsed g))
        (getRealizedGains (roundTrip (snd (workedExample 0))))
     = [[101.0025, 121.203]]
   \<and> map sr_totalCostBasis (getRealizedGains (snd (workedExample 0))) = [16080]
   \<and> map sr_totalCostBasis (getRealizedGains (roundTrip (snd (workedExample 0)))) = [16160.4]
   \<and> map sr_capitalGain (getRealizedGains (snd (workedExample 0))) = [6307.5]
   \<and> map sr_capitalGain (getRealizedGains (roundTrip (snd (workedExample 0)))) = [6227.1]"
  by (simp add: getRealizedGains_def roundTrip_realizedGains workedExample_gains
        importSale_lotsUsed workedSale_lotsUsed workedSale_fields workedSale_totals
        importSale_capitalGain importSale_totalCostBasis workedSale_pairs)

section \<open>Conservation of quantity\<close>

lemma lotsOf_update [simp]:
  "lotsOf (q\<lparr>holdings := (holdings q)(symbol \<mapsto> lots)\<rparr>) s
     = (if s = symbol then lots else lotsOf q s)"
  by (simp add: lotsOf_def)

lemma lotsOf_other_fields [simp]:
  "lotsOf (q\<lparr>transactions := ts\<rparr>) s = lotsOf q s"
  "lotsOf (q\<lparr>realizedGains := gs\<rparr>) s = lotsOf q s"
  by (simp_all add: lotsOf_def)

lemma lotsOf_constructor [simp]: "lotsOf constructor s = []"
  by (simp add: lotsOf_def constructor_def)

lemma buy_lots:
  assumes "toUpperCase type = ''BUY''"
  shows "lotsOf (snd (addTransaction q type symbol quantity price date fee)) s
     = (if buyAccepted (newTransaction q type symbol quantity price date fee)
           \<and> s = toUpperCase symbol
        then lotsOf q s @ [newLot (newTransaction q type symbol quantity price date fee)]
        else lotsOf q s)"
  using assms by (simp add: addTransaction_buy Let_def)

lemma sell_lots:
  assumes "toUpperCase type = ''SELL''"
    and "\<not> isl (fst (addTransaction q type symbol quantity price date fee))"
  shows "lotsOf (snd (addTransaction q type symbol quantity price date fee)) s
     = (if s = toUpperCase symbol
        then filter (\<lambda>lot. lot_remainingQuantity lot > 0)
               (lotsAfter (calculateSettlementDate date) (lotsOf q s) quantity)
        else lotsOf q s)"
    and "quantity \<le> remainingTotal (lotsOf q (toUpperCase symbol))"
  using assms by (simp_all add: addTransaction_sell Let_def split: if_splits)

lemma newLot_remaining [simp]:
  "lot_remainingQuantity (newLot tx) = tx_quantity tx"
  "lot_quantity (newLot tx) = tx_quantity tx"
  "lot_price (newLot tx) = tx_adjustedPrice tx"
  "lot_purchaseDate (newLot tx) = tx_settlementDate tx"
  by (simp_all add: newLot_def Let_def)

lemma remainingTotal_simps [simp]:
  "remainingTotal [] = 0"
  "remainingTotal (xs @ ys) = remainingTotal xs + remainingTotal ys"
  "remainingTotal (x # xs) = lot_remainingQuantity x + remainingTotal xs"
  by (simp_all add: remainingTotal_def)

lemma sell_step_total:
  assumes "\<forall>lot \<in> set ls. 0 < lot_remainingQuantity lot" "0 \<le> r" "r \<le> remainingTotal ls"
  shows "remainingTotal (filter (\<lambda>lot. lot_remainingQuantity lot > 0) (lotsAfter sd ls r))
      = remainingTotal ls - r"
proof -
  have nn: "\<forall>lot \<in> set ls. 0 \<le> lot_remainingQuantity lot"
    using assms(1) by (auto intro: less_imp_le)
  have "\<forall>lot \<in> set (lotsAfter sd ls r). 0 \<le> lot_remainingQuantity lot"
    using nn by (rule after_remaining_nonneg)
  then have "remainingTotal (filter (\<lambda>lot. lot_remainingQuantity lot > 0) (lotsAfter sd ls r))
      = remainingTotal (lotsAfter sd ls r)"
    unfolding remainingTotal_def by (rule filter_positive_sum)
  also have "\<dots> = remainingTotal ls - r"
    using nn assms(2,3) unfolding remainingTotal_def by (rule after_remaining_sum)
  finally show ?thesis .
qed

lemma isBuy_not_isSell: "isBuy c \<Longrightarrow> \<not> isSell c"
  by (simp add: isBuy_def isSell_def)

lemma call_step:
  assumes inv: "positiveLots q"
    and ok: "validBuy c \<or> (isSell c \<and> 0 \<le> c_quantity c)"
    and res: "\<not> isl (fst (call q c))"
  shows "positiveLots (snd (call q c))"
    and "remainingTotal (lotsOf (snd (call q c)) s)
       = remainingTotal (lotsOf q s)
         + (if isBuy c \<and> toUpperCase (c_symbol c) = s then c_quantity c else 0)
         - (if isSell c \<and> toUpperCase (c_symbol c) = s then c_quantity c else 0)"
proof -
  from ok consider (b) "validBuy c" | (s) "isSell c" "0 \<le> c_quantity c" by blast
  then have "positiveLots (snd (call q c)) \<and>
     remainingTotal (lotsOf (snd (call q c)) s)
       = remainingTotal (lotsOf q s)
         + (if isBuy c \<and> toUpperCase (c_symbol c) = s then c_quantity c else 0)
         - (if isSell c \<and> toUpperCase (c_symbol c) = s then c_quantity c else 0)"
  proof cases
    case b
    then have t: "toUpperCase (c_type c) = ''BUY''" and v: "c_symbol c \<noteq> []" "0 < c_quantity c" "0 < c_price c"
      by (simp_all add: validBuy_def isBuy_def)
    have acc: "buyAccepted (newTransaction q (c_type c) (c_symbol c) (c_quantity c) (c_price c) (c_date c) (c_feePercent c))"
      using v t by (simp add: buyAccepted_def newTransaction_def Let_def getAdjustedPrice_def buy_price_sign)
    have ns: "\<not> isSell c" "isBuy c" using t by (simp_all add: isSell_def isBuy_def)
    show ?thesis
      using inv v(2) ns
      by (auto simp: positiveLots_def call_def buy_lots [OF t] acc)
  next
    case s
    then have t: "toUpperCase (c_type c) = ''SELL''" by (simp add: isSell_def)
    have nb: "\<not> isBuy c" "isSell c" using t by (simp_all add: isSell_def isBuy_def)
    note sl = sell_lots [OF t res [unfolded call_def]]
    have pos: "\<forall>lot \<in> set (lotsOf q (toUpperCase (c_symbol c))). 0 < lot_remainingQuantity lot"
      using inv by (simp add: positiveLots_def)
    have tot: "remainingTotal (filter (\<lambda>lot. lot_remainingQuantity lot > 0)
         (lotsAfter (calculateSettlementDate (c_date c)) (lotsOf q (toUpperCase (c_symbol c))) (c_quantity c)))
       = remainingTotal (lotsOf q (toUpperCase (c_symbol c))) - c_quantity c"
      using pos s(2) sl(2) by (rule sell_step_total)
    show ?thesis
      using inv nb tot
      by (auto simp: positiveLots_def call_def sl(1))
  qed
  then show "positiveLots (snd (call q c))"
    and "remainingTotal (lotsOf (snd (call q c)) s)
       = remainingTotal (lotsOf q s)
         + (if isBuy c \<and> toUpperCase (c_symbol c) = s then c_quantity c else 0)
         - (if isSell c \<and> toUpperCase (c_symbol c) = s then c_quantity c else 0)"
    by simp_all
qed

lemma run_conservation:
  assumes "positiveLots q0"
    and "\<forall>c \<in> set cs. validBuy c \<or> (isSell c \<and> 0 \<le> c_quantity c)"
    and "run q0 cs = Inr q"
  shows "positiveLots q \<and>
     remainingTotal (lotsOf q s)
       = remainingTotal (lotsOf q0 s) + totalBought cs s - totalSold cs s"
  using assms
proof (induction cs arbitrary: q0)
  case Nil
  then show ?case by (simp add: totalBought_def totalSold_def)
next
  case (Cons c cs)
  obtain r q1 where c1: "call q0 c = (r, q1)" by (cases "call q0 c")
  with Cons.prems(3) obtain v where r: "r = Inr v" and rest: "run q1 cs = Inr q"
    by (cases r) auto
  have ok: "validBuy c \<or> (isSell c \<and> 0 \<le> c_quantity c)"
    using Cons.prems(2) by simp
  have nf: "\<not> isl (fst (call q0 c))" using c1 r by simp
  have inv1: "positiveLots q1"
    using call_step(1) [OF Cons.prems(1) ok nf] c1 by simp
  have tot1: "remainingTotal (lotsOf q1 s)
       = remainingTotal (lotsOf q0 s)
         + (if isBuy c \<and> toUpperCase (c_symbol c) = s then c_quantity c else 0)
         - (if isSell c \<and> toUpperCase (c_symbol c) = s then c_quantity c else 0)"
    using call_step(2) [OF Cons.prems(1) ok nf, of s] c1 by simp
  have ih: "positiveLots q \<and>
     remainingTotal (lotsOf q s)
       = remainingTotal (lotsOf q1 s) + totalBought cs s - totalSold cs s"
    using Cons.prems(2) by (intro Cons.IH [OF inv1 _ rest]) simp
  show ?case
    using ih tot1 by (simp add: totalBought_def totalSold_def)
qed

lemma positiveLots_constructor: "positiveLots constructor"
  by (simp add: positiveLots_def)

lemma reportedQuantity_total:
  assumes "positiveLots q"
  shows "reportedQuantity q s = remainingTotal (lotsOf q s)"
proof (cases "holdings q s")
  case None
  then show ?thesis by (simp add: reportedQuantity_def getHoldings_def lotsOf_def)
next
  case (Some lots)
  then have l: "lotsOf q s = lots" by (simp add: lotsOf_def)
  have pos: "\<forall>lot \<in> set lots. 0 < lot_remainingQuantity lot"
    using assms l by (auto simp: positiveLots_def)
  then have f: "filter (\<lambda>lot. \<not> lot_remainingQuantity lot \<le> 0) lots = lots"
    by (auto simp: filter_id_conv not_le)
  have "0 \<le> remainingTotal lots"
    unfolding remainingTotal_def using pos by (intro sum_list_nonneg) (auto intro: less_imp_le)
  then show ?thesis
    using Some
    by (auto simp: reportedQuantity_def getHoldings_def l f Let_def foldl_plus remainingTotal_def)
qed


lemma call_buy [simp]:
  "call q (buy symbol quantity price date fee) = addTransaction q ''BUY'' symbol quantity price date fee"
  by (simp add: call_def buy_def)

lemma call_sell [simp]:
  "call q (sell symbol quantity price date fee) = addTransaction q ''SELL'' symbol quantity price date fee"
  by (simp add: call_def sell_def)

lemma run_snoc:
  "run q (cs @ [c]) =
     (case run q cs of
        Inl e \<Rightarrow> Inl e
      | Inr q' \<Rightarrow> (case fst (call q' c) of Inl e \<Rightarrow> Inl e | Inr r \<Rightarrow> Inr (snd (call q' c))))"
  by (induction cs arbitrary: q) (auto split: prod.splits sum.splits)

lemma run_workedBuys: "run constructor (workedBuys D) = Inr (workedLedger D)"
  by (simp add: workedBuys_def workedLedger_def addTransaction_buy Let_def)

lemma workedExample_Inr:
  "fst (workedExample D)
     = Inr (SaleRecord (saleRecord (lotsOf (workedLedger D) ''OGDC'') ''OGDC'' 150 150 (D + 400)
              (Some (1 / 2))))"
  by (simp add: workedExample_def addTransaction_sell Let_def workedLedger_total)

lemma run_worked:
  "run constructor (workedBuys D @ [sell ''OGDC'' 150 150 (D + 400) (Some (1 / 2))])
     = Inr (snd (workedExample D))"
  using workedExample_Inr [of D]
  by (simp add: run_snoc run_workedBuys workedExample_def)

lemma validBuy_buy [simp]:
  "validBuy (buy symbol quantity price date fee) \<longleftrightarrow> symbol \<noteq> [] \<and> 0 < quantity \<and> 0 < price"
  by (simp add: validBuy_def buy_def isBuy_def)

lemma isSell_sell [simp]: "isSell (sell symbol quantity price date fee)"
  by (simp add: isSell_def sell_def)

lemma isBuy_buy [simp]: "isBuy (buy symbol quantity price date fee)"
  by (simp add: isBuy_def buy_def)

lemma isBuy_sell [simp]: "\<not> isBuy (sell symbol quantity price date fee)"
  by (simp add: isBuy_def sell_def)

lemma isSell_buy [simp]: "\<not> isSell (buy symbol quantity price date fee)"
  by (simp add: isSell_def buy_def)

lemma call_fields [simp]:
  "c_quantity (buy symbol quantity price date fee) = quantity"
  "c_quantity (sell symbol quantity price date fee) = quantity"
  "c_symbol (buy symbol quantity price date fee) = symbol"
  "c_symbol (sell symbol quantity price date fee) = symbol"
  "c_date (buy symbol quantity price date fee) = date"
  "c_price (buy symbol quantity price date fee) = price"
  "c_feePercent (buy symbol quantity price date fee) = fee"
  by (simp_all add: buy_def sell_def)



section \<open>First in, first out\<close>

lemma lotsAfter_Cons_filter:
  assumes "0 < lot_remainingQuantity lot" "0 < r"
  shows "filter (\<lambda>lot. lot_remainingQuantity lot > 0) (lotsAfter sd (lot # ls) r)
     = (if lot_remainingQuantity lot \<le> r then []
        else [lot\<lparr>lot_remainingQuantity := lot_remainingQuantity lot - r\<rparr>])
       @ filter (\<lambda>lot. lot_remainingQuantity lot > 0)
           (lotsAfter sd ls (r - min (lot_remainingQuantity lot) r))"
  using assms by (auto simp: lotsAfter_Cons min_def)

lemma fifo_prefix:
  assumes "\<forall>lot \<in> set ls. 0 < lot_remainingQuantity lot" "0 < r" "r \<le> remainingTotal ls"
  shows "\<exists>k < length ls.
      0 < r - remainingTotal (take k ls)
    \<and> r - remainingTotal (take k ls) \<le> lot_remainingQuantity (ls ! k)
    \<and> lotsUsedBy sd ls r
        = map (\<lambda>lot. lotUsage sd lot (lot_remainingQuantity lot)) (take k ls)
          @ [lotUsage sd (ls ! k) (r - remainingTotal (take k ls))]
    \<and> filter (\<lambda>lot. lot_remainingQuantity lot > 0) (lotsAfter sd ls r)
        = (if r - remainingTotal (take k ls) = lot_remainingQuantity (ls ! k) then []
           else [(ls ! k)\<lparr>lot_remainingQuantity :=
                   lot_remainingQuantity (ls ! k) - (r - remainingTotal (take k ls))\<rparr>])
          @ drop (Suc k) ls"
  using assms
proof (induction ls arbitrary: r)
  case Nil
  then show ?case by simp
next
  case (Cons lot ls)
  have pos: "0 < lot_remainingQuantity lot" and rest: "\<forall>l \<in> set ls. 0 < lot_remainingQuantity l"
    using Cons.prems(1) by simp_all
  have keep: "filter (\<lambda>lot. lot_remainingQuantity lot > 0) ls = ls"
    using rest by (simp add: filter_id_conv)
  show ?case
  proof (cases "r \<le> lot_remainingQuantity lot")
    case True
    have u: "lotsUsedBy sd (lot # ls) r = [lotUsage sd lot r]"
      using True pos Cons.prems(2) by (simp add: lotsUsedBy_Cons min_def)
    have a: "filter (\<lambda>lot. lot_remainingQuantity lot > 0) (lotsAfter sd (lot # ls) r)
        = (if r = lot_remainingQuantity lot then []
           else [lot\<lparr>lot_remainingQuantity := lot_remainingQuantity lot - r\<rparr>]) @ ls"
      using True pos Cons.prems(2) by (auto simp: lotsAfter_Cons_filter min_def keep)
    show ?thesis
      using True Cons.prems(2) u a by (intro exI [of _ 0]) simp
  next
    case False
    then have gt: "lot_remainingQuantity lot < r" by simp
    let ?r = "r - lot_remainingQuantity lot"
    have "0 < ?r" "?r \<le> remainingTotal ls"
      using gt Cons.prems(3) by simp_all
    from Cons.IH [OF rest this] obtain k where k: "k < length ls"
      and a1: "0 < ?r - remainingTotal (take k ls)"
      and a2: "?r - remainingTotal (take k ls) \<le> lot_remainingQuantity (ls ! k)"
      and u: "lotsUsedBy sd ls ?r
        = map (\<lambda>lot. lotUsage sd lot (lot_remainingQuantity lot)) (take k ls)
          @ [lotUsage sd (ls ! k) (?r - remainingTotal (take k ls))]"
      and f: "filter (\<lambda>lot. lot_remainingQuantity lot > 0) (lotsAfter sd ls ?r)
        = (if ?r - remainingTotal (take k ls) = lot_remainingQuantity (ls ! k) then []
           else [(ls ! k)\<lparr>lot_remainingQuantity :=
                   lot_remainingQuantity (ls ! k) - (?r - remainingTotal (take k ls))\<rparr>])
          @ drop (Suc k) ls"
      by blast
    have u': "lotsUsedBy sd (lot # ls) r
        = lotUsage sd lot (lot_remainingQuantity lot) # lotsUsedBy sd ls ?r"
      using gt pos Cons.prems(2) by (simp add: lotsUsedBy_Cons min_def)
    have f': "filter (\<lambda>lot. lot_remainingQuantity lot > 0) (lotsAfter sd (lot # ls) r)
        = filter (\<lambda>lot. lot_remainingQuantity lot > 0) (lotsAfter sd ls ?r)"
      using gt pos Cons.prems(2) by (simp add: lotsAfter_Cons_filter min_def)
    show ?thesis
      using k a1 a2 by (intro exI [of _ "Suc k"]) (simp add: u' u f' f diff_diff_eq)
  qed
qed

lemma validBuy_accepted:
  assumes "validBuy c"
  shows "buyAccepted (newTransaction q (c_type c) (c_symbol c) (c_quantity c) (c_price c)
           (c_date c) (c_feePercent c))"
  using assms
  by (simp add: validBuy_def isBuy_def buyAccepted_def newTransaction_def Let_def
        getAdjustedPrice_def buy_price_sign)

lemma call_validBuy:
  assumes "validBuy c"
  shows "\<not> isl (fst (call q c))"
    and "lotsOf (snd (call q c)) s
       = (if s = toUpperCase (c_symbol c)
          then lotsOf q s @ [newLot (newTransaction q (c_type c) (c_symbol c) (c_quantity c)
                 (c_price c) (c_date c) (c_feePercent c))]
          else lotsOf q s)"
proof -
  have t: "toUpperCase (c_type c) = ''BUY''"
    using assms by (simp add: validBuy_def isBuy_def)
  show "\<not> isl (fst (call q c))"
    by (simp add: call_def addTransaction_buy [OF t] Let_def)
  show "lotsOf (snd (call q c)) s
       = (if s = toUpperCase (c_symbol c)
          then lotsOf q s @ [newLot (newTransaction q (c_type c) (c_symbol c) (c_quantity c)
                 (c_price c) (c_date c) (c_feePercent c))]
          else lotsOf q s)"
    using validBuy_accepted [OF assms, of q]
    by (simp add: call_def buy_lots [OF t])
qed

lemma run_buys_lots:
  assumes "\<forall>b \<in> set bs. validBuy b \<and> toUpperCase (c_symbol b) = S"
    and "run q0 bs = Inr q"
  shows "map lot_remainingQuantity (lotsOf q S)
       = map lot_remainingQuantity (lotsOf q0 S) @ map c_quantity bs
     \<and> map lot_purchaseDate (lotsOf q S)
       = map lot_purchaseDate (lotsOf q0 S) @ map (\<lambda>b. calculateSettlementDate (c_date b)) bs"
  using assms
proof (induction bs arbitrary: q0)
  case Nil
  then show ?case by simp
next
  case (Cons b bs)
  have v: "validBuy b" and s: "toUpperCase (c_symbol b) = S"
    using Cons.prems(1) by simp_all
  obtain r q1 where c1: "call q0 b = (r, q1)" by (cases "call q0 b")
  with Cons.prems(2) obtain x where "r = Inr x" and rest: "run q1 bs = Inr q"
    by (cases r) auto
  have l1: "lotsOf q1 S = lotsOf q0 S @ [newLot (newTransaction q0 (c_type b) (c_symbol b)
                 (c_quantity b) (c_price b) (c_date b) (c_feePercent b))]"
    using call_validBuy(2) [OF v, of q0 S] c1 s by simp
  have "\<forall>b \<in> set bs. validBuy b \<and> toUpperCase (c_symbol b) = S"
    using Cons.prems(1) by simp
  from Cons.IH [OF this rest] show ?case
    by (simp add: l1)
qed

lemma calculateSettlementDate_step:
  "calculateSettlementDate t \<le> calculateSettlementDate (t + 1)"
  using getDay_range [of t]
  by (auto simp: calculateSettlementDate_closed getDay_succ)

lemma calculateSettlementDate_mono:
  assumes "t \<le> t'"
  shows "calculateSettlementDate t \<le> calculateSettlementDate t'"
  using assms
proof (induction t' rule: int_ge_induct)
  case base
  show ?case by simp
next
  case (step i)
  then show ?case
    using calculateSettlementDate_step [of i] by linarith
qed

lemma sorted_settlement:
  "sorted (map c_date bs) \<Longrightarrow> sorted (map (\<lambda>b. calculateSettlementDate (c_date b)) bs)"
  by (induction bs) (auto intro: calculateSettlementDate_mono)



lemma calculateSettlementDate_numeral2 [simp]:
  "calculateSettlementDate 4 = 6" "calculateSettlementDate 11 = 13"
  by (simp_all add: calculateSettlementDate_closed getDay_def)

lemma backfilledLedger_lots:
  "lotsOf backfilledLedger ''OGDC''
    = [newLot (newTransaction constructor ''BUY'' ''OGDC'' 100 100 11 None),
       newLot (newTransaction
                 (snd (addTransaction constructor ''BUY'' ''OGDC'' 100 100 11 None))
                 ''BUY'' ''OGDC'' 100 120 4 None)]"
  by (simp add: backfilledLedger_def addTransaction_buy Let_def buyAccepted_buy)

lemma run_backfilledBuys: "run constructor backfilledBuys = Inr backfilledLedger"
  by (simp add: backfilledBuys_def backfilledLedger_def addTransaction_buy Let_def)


end
